theory Spec2Isabelle
  imports Complex_Main "HOL-Library.AList" "HOL-Library.Word"
begin

section \<open>Numbers\<close>

text \<open>
  The module computes with Python floats and pandas/NumPy \<open>float64\<close> columns. They are
  modelled as exact reals: rounding, overflow and the sign of zero are not represented.
  The inputs (\<open>price\<close>, \<open>cost\<close>, \<open>fixed_costs\<close>, \<open>new_price\<close>, \<open>discount_percent\<close>) are
  finite numbers. Wherever the source divides without a guard, or writes
  \<open>float('inf')\<close>, the value is an \<open>fnum\<close>: a real or one of the three IEEE special
  values, with NumPy's rules for them (a division by zero does not raise on a column or
  a NumPy scalar: it gives an infinity, or NaN for \<open>0/0\<close>).
\<close>

datatype fnum = Fin real | PInf | NInf | NaN

text \<open>
  The quantities are integers, and pandas holds them in an \<open>int64\<close> column: a quantity is
  a 64-bit word read as a signed number, the sum of the column wraps around as the
  machine addition does, and a quantity enters the float arithmetic by its signed value.
\<close>

definition float_of_int64 :: "64 word \<Rightarrow> real" where
  "float_of_int64 q = real_of_int (sint q)"

definition signed_inf :: "real \<Rightarrow> fnum" where
  "signed_inf x = (if 0 < x then PInf else if x < 0 then NInf else NaN)"

fun fneg :: "fnum \<Rightarrow> fnum" where
  "fneg (Fin x) = Fin (- x)"
| "fneg PInf = NInf"
| "fneg NInf = PInf"
| "fneg NaN = NaN"

fun fadd :: "fnum \<Rightarrow> fnum \<Rightarrow> fnum" where
  "fadd NaN _ = NaN"
| "fadd _ NaN = NaN"
| "fadd (Fin x) (Fin y) = Fin (x + y)"
| "fadd (Fin x) PInf = PInf"
| "fadd (Fin x) NInf = NInf"
| "fadd PInf (Fin y) = PInf"
| "fadd NInf (Fin y) = NInf"
| "fadd PInf PInf = PInf"
| "fadd NInf NInf = NInf"
| "fadd PInf NInf = NaN"
| "fadd NInf PInf = NaN"

definition fsub :: "fnum \<Rightarrow> fnum \<Rightarrow> fnum" where
  "fsub a b = fadd a (fneg b)"

fun fmul :: "fnum \<Rightarrow> fnum \<Rightarrow> fnum" where
  "fmul NaN _ = NaN"
| "fmul _ NaN = NaN"
| "fmul (Fin x) (Fin y) = Fin (x * y)"
| "fmul (Fin x) PInf = signed_inf x"
| "fmul (Fin x) NInf = signed_inf (- x)"
| "fmul PInf (Fin y) = signed_inf y"
| "fmul NInf (Fin y) = signed_inf (- y)"
| "fmul PInf PInf = PInf"
| "fmul NInf NInf = PInf"
| "fmul PInf NInf = NInf"
| "fmul NInf PInf = NInf"

text \<open>Division as NumPy does it: \<open>x / 0\<close> is an infinity of the sign of \<open>x\<close>, \<open>0 / 0\<close> is NaN.\<close>

fun fdiv :: "fnum \<Rightarrow> fnum \<Rightarrow> fnum" where
  "fdiv NaN _ = NaN"
| "fdiv _ NaN = NaN"
| "fdiv (Fin x) (Fin y) = (if y = 0 then signed_inf x else Fin (x / y))"
| "fdiv (Fin x) PInf = Fin 0"
| "fdiv (Fin x) NInf = Fin 0"
| "fdiv PInf (Fin y) = (if 0 \<le> y then PInf else NInf)"
| "fdiv NInf (Fin y) = (if 0 \<le> y then NInf else PInf)"
| "fdiv PInf PInf = NaN"
| "fdiv NInf NInf = NaN"
| "fdiv PInf NInf = NaN"
| "fdiv NInf PInf = NaN"

text \<open>The order of floats; every comparison with NaN is false.\<close>

fun fless :: "fnum \<Rightarrow> fnum \<Rightarrow> bool" where
  "fless NaN _ = False"
| "fless _ NaN = False"
| "fless (Fin x) (Fin y) = (x < y)"
| "fless (Fin x) PInf = True"
| "fless (Fin x) NInf = False"
| "fless PInf _ = False"
| "fless NInf (Fin y) = True"
| "fless NInf PInf = True"
| "fless NInf NInf = False"

text \<open>\<open>Series.fillna(0)\<close> replaces NaN, and nothing else, by 0.\<close>

fun fillna :: "fnum \<Rightarrow> fnum" where
  "fillna NaN = Fin 0"
| "fillna v = v"

text \<open>\<open>Series.mean()\<close> skips NaN; the mean of no value is NaN.\<close>

definition mean :: "fnum list \<Rightarrow> fnum" where
  "mean vs =
     (let present = filter (\<lambda>v. v \<noteq> NaN) vs
      in if present = [] then NaN
         else fdiv (foldl fadd (Fin 0) present) (Fin (real (length present))))"

text \<open>
  \<open>Series.rank(ascending=False)\<close> with pandas' default \<open>method='average'\<close>: the values
  are laid out in descending order at the positions \<open>1, 2, ...\<close>; a value receives the
  mean of the positions its group of equal values occupies. With \<open>g\<close> values greater
  than \<open>v\<close> and \<open>k\<close> values equal to it, the group occupies \<open>g + 1, ..., g + k\<close>. NaN
  keeps the rank NaN and is not counted.
\<close>

definition rank_of :: "fnum list \<Rightarrow> fnum \<Rightarrow> fnum" where
  "rank_of vs v =
     (if v = NaN then NaN
      else let g = length (filter (\<lambda>w. fless v w) vs);
               k = length (filter (\<lambda>w. w = v) vs)
           in Fin (real (sum_list [g + 1 ..< g + k + 1]) / real k))"

definition rank_descending :: "fnum list \<Rightarrow> fnum list" where
  "rank_descending vs = map (rank_of vs) vs"

text \<open>
  \<open>DataFrame.nlargest(n, column)\<close> and \<open>nsmallest\<close>: the first \<open>n\<close> rows in descending
  (ascending) order of the column, rows with equal values in their original order
  (\<open>keep='first'\<close>), NaN last.
\<close>

definition before_desc :: "fnum \<Rightarrow> fnum \<Rightarrow> bool" where
  "before_desc a b =
     (if a = NaN then b = NaN else if b = NaN then True else \<not> fless a b)"

definition before_asc :: "fnum \<Rightarrow> fnum \<Rightarrow> bool" where
  "before_asc a b =
     (if a = NaN then b = NaN else if b = NaN then True else \<not> fless b a)"

fun insert_by :: "('a \<Rightarrow> 'a \<Rightarrow> bool) \<Rightarrow> 'a \<Rightarrow> 'a list \<Rightarrow> 'a list" where
  "insert_by before x [] = [x]"
| "insert_by before x (y # ys) =
     (if before x y then x # y # ys else y # insert_by before x ys)"

definition sort_by :: "('a \<Rightarrow> 'a \<Rightarrow> bool) \<Rightarrow> 'a list \<Rightarrow> 'a list" where
  "sort_by before xs = foldr (insert_by before) xs []"

definition nlargest :: "nat \<Rightarrow> ('a \<Rightarrow> fnum) \<Rightarrow> 'a list \<Rightarrow> 'a list" where
  "nlargest n column t = take n (sort_by (\<lambda>x y. before_desc (column x) (column y)) t)"

definition nsmallest :: "nat \<Rightarrow> ('a \<Rightarrow> fnum) \<Rightarrow> 'a list \<Rightarrow> 'a list" where
  "nsmallest n column t = take n (sort_by (\<lambda>x y. before_asc (column x) (column y)) t)"

section \<open>Tables, the store and the analyzer\<close>

text \<open>
  A product is one dictionary of \<open>products_data\<close>. A row of \<open>self.df\<close> carries the product's
  four columns and the five derived ones; a row of the contribution analysis adds three
  more. A dictionary with further keys is a record extending \<open>product\<close>, so the
  constructor takes any \<open>'a product_scheme list\<close>.
\<close>

record product =
  name :: string
  price :: real
  cost :: real
  quantity :: "64 word"

record row = product +
  contribution_margin :: real
  contribution_margin_percent :: fnum
  total_revenue :: real
  total_variable_cost :: real
  total_contribution :: real

record analysis_row = row +
  contribution_rank :: fnum
  revenue_participation :: fnum
  contribution_participation :: fnum

text \<open>
  A DataFrame is a mutable object: \<open>self.df\<close> is a reference to it, \<open>df.copy()\<close> makes a
  new object and \<open>df.loc[...] = ...\<close> writes into the object it is applied to. The store
  holds the DataFrames in the order of their creation; an address is a position in it.
\<close>

type_synonym dataframe = "row list"
type_synonym addr = nat
type_synonym store = "dataframe list"

definition alloc :: "store \<Rightarrow> dataframe \<Rightarrow> addr \<times> store" where
  "alloc h t = (length h, h @ [t])"

record 'a analyzer =
  products_data :: "'a product_scheme list"
  fixed_costs :: real
  df :: addr

text \<open>The values a result dictionary holds besides numbers.\<close>

datatype pyval = Num fnum | Str string | StrList "string list"

type_synonym numdict = "(string \<times> fnum) list"
type_synonym dict = "(string \<times> pyval) list"

text \<open>\<open>d.get(key, default)\<close>\<close>

definition get :: "(string \<times> 'v) list \<Rightarrow> string \<Rightarrow> 'v \<Rightarrow> 'v" where
  "get d key dflt = (case map_of d key of Some v \<Rightarrow> v | None \<Rightarrow> dflt)"

subsection \<open>Construction\<close>

text \<open>
  \<open>_calculate_metrics\<close> adds the five derived columns to the frame built from the
  dictionaries, when it has a row; \<open>metrics\<close> is what it computes for one row. The
  percentage is the only division of the constructor, and \<open>fillna(0)\<close> is its only guard.
  The constructor creates the frame and completes it before anything else can read it,
  so the frame enters the store with its derived columns. It checks nothing and has no
  \<open>raise\<close>, and on records that carry the four columns none of its column operations
  fails: it is a function with no error result.
\<close>

definition metrics :: "'a product_scheme \<Rightarrow> row" where
  "metrics p =
     \<lparr> name = name p, price = price p, cost = cost p, quantity = quantity p,
       contribution_margin = price p - cost p,
       contribution_margin_percent =
         fillna (fmul (fdiv (Fin (price p - cost p)) (Fin (price p))) (Fin 100)),
       total_revenue = price p * float_of_int64 (quantity p),
       total_variable_cost = cost p * float_of_int64 (quantity p),
       total_contribution = (price p - cost p) * float_of_int64 (quantity p) \<rparr>"

definition calculate_metrics :: "'a product_scheme list \<Rightarrow> dataframe" where
  "calculate_metrics ps = (if length ps > 0 then map metrics ps else [])"

definition FinancialAnalyzer ::
  "store \<Rightarrow> 'a product_scheme list \<Rightarrow> real \<Rightarrow> 'a analyzer \<times> store" where
  "FinancialAnalyzer h products_data' fixed_costs' =
     (let (a, h') = alloc h (calculate_metrics products_data')
      in (\<lparr> products_data = products_data', fixed_costs = fixed_costs', df = a \<rparr>, h'))"

subsection \<open>The queries\<close>

text \<open>
  Every query reads the frame \<open>self.df\<close> refers to; the address of an analyzer is one
  that \<open>alloc\<close> has handed out, so it lies within the store. An empty dictionary is the
  empty list; the keys of a result are listed in the order of the source. The frame that
  \<open>get_contribution_margin_analysis\<close> copies and extends never reaches an analyzer: it
  is returned as a value.
\<close>

definition frame :: "store \<Rightarrow> 'a analyzer \<Rightarrow> dataframe" where
  "frame h self = h ! df self"

definition get_contribution_margin_analysis :: "store \<Rightarrow> 'a analyzer \<Rightarrow> analysis_row list" where
  "get_contribution_margin_analysis h self =
     (let t = frame h self
      in if length t = 0 then []
         else
           let ranks = rank_descending (map contribution_margin_percent t);
               revenue_sum = sum_list (map total_revenue t);
               contribution_sum = sum_list (map total_contribution t)
           in map (\<lambda>(r, k).
                 row.extend r
                   \<lparr> contribution_rank = k,
                     revenue_participation =
                       fmul (fdiv (Fin (total_revenue r)) (Fin revenue_sum)) (Fin 100),
                     contribution_participation =
                       fmul (fdiv (Fin (total_contribution r)) (Fin contribution_sum)) (Fin 100) \<rparr>)
                (zip t ranks))"

definition calculate_breakeven_analysis :: "store \<Rightarrow> 'a analyzer \<Rightarrow> numdict" where
  "calculate_breakeven_analysis h self =
     (let t = frame h self
      in if length t = 0 then []
         else
           let total_contribution' = sum_list (map total_contribution t);
               total_quantity = sum_list (map quantity t);
               total_revenue' = sum_list (map total_revenue t);
               weighted_avg_contribution_margin =
                 (if sint total_quantity > 0
                  then total_contribution' / float_of_int64 total_quantity else 0);
               weighted_avg_price =
                 (if sint total_quantity > 0
                  then total_revenue' / float_of_int64 total_quantity else 0);
               breakeven_units =
                 (if weighted_avg_contribution_margin > 0
                  then fixed_costs self / weighted_avg_contribution_margin else 0);
               breakeven_revenue = breakeven_units * weighted_avg_price;
               safety_margin_units = float_of_int64 total_quantity - breakeven_units;
               safety_margin_percent =
                 (if sint total_quantity > 0
                  then safety_margin_units / float_of_int64 total_quantity * 100 else 0);
               safety_margin_revenue = total_revenue' - breakeven_revenue
           in [(''breakeven_units'', Fin breakeven_units),
               (''breakeven_revenue'', Fin breakeven_revenue),
               (''safety_margin_units'', Fin safety_margin_units),
               (''safety_margin_percent'', Fin safety_margin_percent),
               (''safety_margin_revenue'', Fin safety_margin_revenue),
               (''weighted_avg_contribution_margin'', Fin weighted_avg_contribution_margin),
               (''weighted_avg_price'', Fin weighted_avg_price)])"

definition calculate_operating_leverage :: "store \<Rightarrow> 'a analyzer \<Rightarrow> fnum" where
  "calculate_operating_leverage h self =
     (let t = frame h self
      in if length t = 0 then Fin 0
         else
           let total_contribution' = sum_list (map total_contribution t);
               net_profit = total_contribution' - fixed_costs self
           in if net_profit = 0 then PInf
              else Fin (total_contribution' / net_profit))"

text \<open>
  \<open>{..., **other}\<close>: the entries of \<open>other\<close> are stored one after the other into the
  dictionary built so far; a key already present keeps its place and takes the new
  value, a new key is added at the end.
\<close>

definition dict_merge :: "(string \<times> 'v) list \<Rightarrow> (string \<times> 'v) list \<Rightarrow> (string \<times> 'v) list" where
  "dict_merge d other = fold (\<lambda>(k, v). AList.update k v) other d"

definition get_cost_volume_profit_analysis :: "store \<Rightarrow> 'a analyzer \<Rightarrow> numdict" where
  "get_cost_volume_profit_analysis h self =
     (let t = frame h self
      in if length t = 0 then []
         else
           let total_revenue' = sum_list (map total_revenue t);
               total_variable_cost' = sum_list (map total_variable_cost t);
               total_contribution' = sum_list (map total_contribution t);
               net_profit = total_contribution' - fixed_costs self;
               contribution_margin_ratio =
                 (if total_revenue' > 0 then total_contribution' / total_revenue' * 100 else 0);
               variable_cost_ratio =
                 (if total_revenue' > 0 then total_variable_cost' / total_revenue' * 100 else 0);
               breakeven_analysis = calculate_breakeven_analysis h self;
               operating_leverage = calculate_operating_leverage h self
           in dict_merge
                [(''total_revenue'', Fin total_revenue'),
                 (''total_variable_cost'', Fin total_variable_cost'),
                 (''total_contribution'', Fin total_contribution'),
                 (''fixed_costs'', Fin (fixed_costs self)),
                 (''net_profit'', Fin net_profit),
                 (''contribution_margin_ratio'', Fin contribution_margin_ratio),
                 (''variable_cost_ratio'', Fin variable_cost_ratio),
                 (''operating_leverage'', operating_leverage)]
                breakeven_analysis)"

text \<open>
  \<open>df.loc[idx, column] = values\<close> writes the column in the rows whose label is in \<open>idx\<close>
  (the labels are the positions \<open>0, 1, ...\<close>), in the frame at the given address;
  \<open>values\<close> is aligned on the labels, so each row takes the value computed from itself.
\<close>

definition loc_assign :: "store \<Rightarrow> addr \<Rightarrow> nat list \<Rightarrow> (row \<Rightarrow> row) \<Rightarrow> store" where
  "loc_assign h a idx f =
     h[a := map (\<lambda>(i, r). if i \<in> set idx then f r else r) (enumerate 0 (h ! a))]"

text \<open>
  The price simulation returns its dictionary and the store it leaves. The Portuguese
  error text of the source is written here without its accent.
  \<open>df_sim.to_dict('records')\<close> hands the rows, derived columns included, to the
  constructor, which takes them as records extending \<open>product\<close>.
\<close>

definition simulate_price_changes ::
  "store \<Rightarrow> 'a analyzer \<Rightarrow> string \<Rightarrow> real \<Rightarrow> dict \<times> store" where
  "simulate_price_changes h self product_name new_price =
     (let t = frame h self
      in if length t = 0 then ([], h)
         else
           let product_idx = filter (\<lambda>i. name (t ! i) = product_name) [0 ..< length t]
           in if length product_idx = 0 then ([(''error'', Str ''Produto nao encontrado'')], h)
              else
                let current_analysis = get_cost_volume_profit_analysis h self;
                    (df_sim, h1) = alloc h (frame h self);
                    h2 = loc_assign h1 df_sim product_idx (\<lambda>r. r\<lparr>price := new_price\<rparr>);
                    h3 = loc_assign h2 df_sim product_idx
                           (\<lambda>r. r\<lparr>contribution_margin := new_price - cost r\<rparr>);
                    h4 = loc_assign h3 df_sim product_idx
                           (\<lambda>r. r\<lparr>contribution_margin_percent :=
                                   fmul (fdiv (Fin (contribution_margin r)) (Fin new_price)) (Fin 100)\<rparr>);
                    h5 = loc_assign h4 df_sim product_idx
                           (\<lambda>r. r\<lparr>total_revenue := new_price * float_of_int64 (quantity r)\<rparr>);
                    h6 = loc_assign h5 df_sim product_idx
                           (\<lambda>r. r\<lparr>total_contribution :=
                                   contribution_margin r * float_of_int64 (quantity r)\<rparr>);
                    (sim_analyzer, h7) = FinancialAnalyzer h6 (h6 ! df_sim) (fixed_costs self);
                    new_analysis = get_cost_volume_profit_analysis h7 sim_analyzer
                in ([(''current_profit'', Num (get current_analysis ''net_profit'' (Fin 0))),
                     (''new_profit'', Num (get new_analysis ''net_profit'' (Fin 0))),
                     (''profit_change'',
                        Num (fsub (get new_analysis ''net_profit'' (Fin 0))
                                  (get current_analysis ''net_profit'' (Fin 0)))),
                     (''current_contribution_ratio'',
                        Num (get current_analysis ''contribution_margin_ratio'' (Fin 0))),
                     (''new_contribution_ratio'',
                        Num (get new_analysis ''contribution_margin_ratio'' (Fin 0)))],
                    h7))"

definition mix_record :: "'a row_scheme \<Rightarrow> dict" where
  "mix_record r =
     [(''name'', Str (name r)),
      (''contribution_margin_percent'', Num (contribution_margin_percent r)),
      (''total_contribution'', Num (Fin (total_contribution r)))]"

definition analyze_product_mix_optimization ::
  "store \<Rightarrow> 'a analyzer \<Rightarrow> (string \<times> dict list) list" where
  "analyze_product_mix_optimization h self =
     (let t = frame h self
      in if length t = 0 then []
         else
           let df_analysis = get_contribution_margin_analysis h self;
               high_margin_products = nlargest 3 contribution_margin_percent df_analysis;
               low_margin_products = nsmallest 3 contribution_margin_percent df_analysis;
               high_contribution_products =
                 nlargest 3 (\<lambda>r. Fin (total_contribution r)) df_analysis
           in [(''high_margin_products'', map mix_record high_margin_products),
               (''low_margin_products'', map mix_record low_margin_products),
               (''high_contribution_products'', map mix_record high_contribution_products)])"

text \<open>
  The combo analysis. The Portuguese texts of the source (the error message and the
  three viability labels) are written without their accents.
\<close>

definition calculate_combo_analysis ::
  "store \<Rightarrow> 'a analyzer \<Rightarrow> string list \<Rightarrow> real \<Rightarrow> dict" where
  "calculate_combo_analysis h self product_names discount_percent =
     (let t = frame h self
      in if length t = 0 then []
         else
           let combo_products = filter (\<lambda>r. name r \<in> set product_names) t
           in if length combo_products = 0 then [(''error'', Str ''Nenhum produto encontrado'')]
              else
                let combo_original_price = sum_list (map price combo_products);
                    combo_discounted_price = combo_original_price * (1 - discount_percent / 100);
                    combo_total_cost = sum_list (map cost combo_products);
                    combo_margin = combo_discounted_price - combo_total_cost;
                    combo_margin_percent =
                      (if combo_discounted_price > 0
                       then combo_margin / combo_discounted_price * 100 else 0);
                    avg_individual_margin = mean (map contribution_margin_percent combo_products)
                in [(''products'', StrList product_names),
                    (''original_price'', Num (Fin combo_original_price)),
                    (''discounted_price'', Num (Fin combo_discounted_price)),
                    (''total_cost'', Num (Fin combo_total_cost)),
                    (''combo_margin'', Num (Fin combo_margin)),
                    (''combo_margin_percent'', Num (Fin combo_margin_percent)),
                    (''avg_individual_margin_percent'', Num avg_individual_margin),
                    (''margin_impact'', Num (fsub (Fin combo_margin_percent) avg_individual_margin)),
                    (''discount_applied'', Num (Fin discount_percent)),
                    (''viability'',
                       Str (if combo_margin_percent > 15 then ''Viavel''
                            else if combo_margin_percent > 5 then ''Revisar''
                            else ''Nao recomendado''))])"

section \<open>Example data\<close>

text \<open>
  Two products of the dashboard's example menu (the first example scenario of the
  specification) and the analyzer built from them in an empty store; the products of
  the second and third example scenarios; and three small product lists for the boundary
  cases: two products with the same margin percentage, a product given away, a product
  with negative figures, a line of returned goods (negative quantity) and a coupon
  (negative price and cost), as a spreadsheet upload can contain them.
\<close>

definition scenario1 :: "product list" where
  "scenario1 =
     [\<lparr>name = ''Cafe Expresso'', price = 9/2, cost = 6/5, quantity = 300\<rparr>,
      \<lparr>name = ''Cappuccino'', price = 6, cost = 2, quantity = 200\<rparr>]"

definition analyzer1 :: "real \<Rightarrow> unit analyzer" where
  "analyzer1 fc = \<lparr>products_data = scenario1, fixed_costs = fc, df = 0\<rparr>"

definition store1 :: store where
  "store1 = [calculate_metrics scenario1]"

definition scenario2 :: "product list" where
  "scenario2 = [\<lparr>name = ''Bolo'', price = 10, cost = 5, quantity = 100\<rparr>]"

definition scenario3 :: "product list" where
  "scenario3 =
     [\<lparr>name = ''Sanduiche'', price = 12, cost = 6, quantity = 100\<rparr>,
      \<lparr>name = ''Suco'', price = 8, cost = 4, quantity = 120\<rparr>]"

definition tied_products :: "product list" where
  "tied_products =
     [\<lparr>name = ''A'', price = 10, cost = 5, quantity = 1\<rparr>,
      \<lparr>name = ''B'', price = 20, cost = 10, quantity = 1\<rparr>]"

definition giveaway :: "product list" where
  "giveaway = [\<lparr>name = ''Brinde'', price = 0, cost = 1, quantity = 10\<rparr>]"

definition negative_product :: "product list" where
  "negative_product = [\<lparr>name = ''X'', price = - 1, cost = - 2, quantity = - 3\<rparr>]"

definition returned_goods :: "product list" where
  "returned_goods = [\<lparr>name = ''Devolucao'', price = 2, cost = 1, quantity = - 1\<rparr>]"

definition negative_price :: "product list" where
  "negative_price = [\<lparr>name = ''Cupom'', price = - 10, cost = - 5, quantity = 1\<rparr>]"

section \<open>Construction and the derived columns\<close>

lemma FinancialAnalyzer_result:
  "FinancialAnalyzer h ps fc =
     (\<lparr> products_data = ps, fixed_costs = fc, df = length h \<rparr>, h @ [calculate_metrics ps])"
  by (simp add: FinancialAnalyzer_def alloc_def)

lemma frame_new:
  assumes "FinancialAnalyzer h ps fc = (a, h')"
  shows "frame h' a = calculate_metrics ps" and "fixed_costs a = fc" and "df a = length h"
  using assms by (auto simp: FinancialAnalyzer_result frame_def)

lemma calculate_metrics_map: "calculate_metrics ps = map metrics ps"
  by (simp add: calculate_metrics_def)

lemma name_metrics: "name (metrics p) = name p"
  by (simp add: metrics_def)

lemma sum_total_contribution:
  "sum_list (map total_contribution (map metrics ps)) =
     (\<Sum>p\<leftarrow>ps. (price p - cost p) * float_of_int64 (quantity p))"
  by (simp add: metrics_def comp_def)

lemma sum_total_revenue:
  "sum_list (map total_revenue (map metrics ps)) = (\<Sum>p\<leftarrow>ps. price p * float_of_int64 (quantity p))"
  by (simp add: metrics_def comp_def)

lemma sum_total_variable_cost:
  "sum_list (map total_variable_cost (map metrics ps)) = (\<Sum>p\<leftarrow>ps. cost p * float_of_int64 (quantity p))"
  by (simp add: metrics_def comp_def)

lemma sum_quantity:
  "sum_list (map quantity (map metrics ps)) = (\<Sum>p\<leftarrow>ps. quantity p)"
  by (simp add: metrics_def comp_def)

lemma sum_price_metrics: "sum_list (map price (map metrics ps)) = (\<Sum>p\<leftarrow>ps. price p)"
  by (simp add: metrics_def comp_def)

lemma sum_cost_metrics: "sum_list (map cost (map metrics ps)) = (\<Sum>p\<leftarrow>ps. cost p)"
  by (simp add: metrics_def comp_def)

lemma contribution_split:
  "(\<Sum>p\<leftarrow>ps. (price p - cost p) * float_of_int64 (quantity p)) =
   (\<Sum>p\<leftarrow>ps. price p * float_of_int64 (quantity p)) - (\<Sum>p\<leftarrow>ps. cost p * float_of_int64 (quantity p))"
  by (induction ps) (simp_all add: algebra_simps)

lemma filter_metrics:
  "filter (\<lambda>r. name r \<in> S) (map metrics ps) = map metrics (filter (\<lambda>p. name p \<in> S) ps)"
  by (simp add: filter_map comp_def metrics_def)

lemma percent_not_nan: "contribution_margin_percent (metrics p) \<noteq> NaN"
proof -
  have "fillna v \<noteq> NaN" for v
    by (cases v) simp_all
  then show ?thesis
    by (simp add: metrics_def)
qed

lemma percent_zero_price:
  "price p = 0 \<Longrightarrow>
     contribution_margin_percent (metrics p) =
       (if cost p = 0 then Fin 0 else if cost p < 0 then PInf else NInf)"
  by (simp add: metrics_def signed_inf_def)

lemma analyzer1_constructed: "FinancialAnalyzer [] scenario1 fc = (analyzer1 fc, store1)"
  by (simp add: FinancialAnalyzer_def alloc_def analyzer1_def store1_def)

lemma scenario1_nonempty: "scenario1 \<noteq> []"
  by (simp add: scenario1_def)

lemma frame_store1: "frame store1 (analyzer1 fc) = map metrics scenario1"
  by (simp add: frame_def store1_def analyzer1_def calculate_metrics_def scenario1_def)

section \<open>The result dictionaries\<close>

text \<open>
  The break-even figures of any analyzer with a row: both weighted averages are 0 unless
  the total quantity, the wrapping sum of the column, is positive.
\<close>

lemma column_sum_wraps:
  "sint (sum_list (map quantity
     [\<lparr>name = ''A'', price = 1, cost = 0, quantity = 2 ^ 62\<rparr>,
      \<lparr>name = ''B'', price = 1, cost = 0, quantity = 2 ^ 62\<rparr>])) = - (2 ^ 63)"
  by simp

lemma breakeven_fields:
  assumes "frame h a \<noteq> []"
    and "tq = sum_list (map quantity (frame h a))"
    and "margin =
      (if 0 < sint tq
       then sum_list (map total_contribution (frame h a)) / float_of_int64 tq else 0)"
    and "avg_price =
      (if 0 < sint tq then sum_list (map total_revenue (frame h a)) / float_of_int64 tq else 0)"
    and "units = (if 0 < margin then fixed_costs a / margin else 0)"
  shows "map_of (calculate_breakeven_analysis h a) ''breakeven_units'' = Some (Fin units)"
    and "map_of (calculate_breakeven_analysis h a) ''breakeven_revenue'' =
           Some (Fin (units * avg_price))"
  using assms(1) unfolding assms(2-5)
  by (simp_all add: calculate_breakeven_analysis_def Let_def)

lemma cvp_totals:
  assumes "frame h a \<noteq> []"
  shows "map_of (get_cost_volume_profit_analysis h a) ''total_revenue'' =
           Some (Fin (sum_list (map total_revenue (frame h a))))"
    and "map_of (get_cost_volume_profit_analysis h a) ''total_variable_cost'' =
           Some (Fin (sum_list (map total_variable_cost (frame h a))))"
    and "map_of (get_cost_volume_profit_analysis h a) ''total_contribution'' =
           Some (Fin (sum_list (map total_contribution (frame h a))))"
    and "map_of (get_cost_volume_profit_analysis h a) ''net_profit'' =
           Some (Fin (sum_list (map total_contribution (frame h a)) - fixed_costs a))"
  using assms
  by (simp_all add: get_cost_volume_profit_analysis_def calculate_breakeven_analysis_def Let_def
      dict_merge_def)

lemma breakeven_frame_cong:
  "frame h a = frame h' a \<Longrightarrow> calculate_breakeven_analysis h a = calculate_breakeven_analysis h' a"
  by (simp add: calculate_breakeven_analysis_def)

lemma leverage_frame_cong:
  "frame h a = frame h' a \<Longrightarrow> calculate_operating_leverage h a = calculate_operating_leverage h' a"
  by (simp add: calculate_operating_leverage_def)

lemma cvp_frame_cong:
  assumes e: "frame h a = frame h' a"
  shows "get_cost_volume_profit_analysis h a = get_cost_volume_profit_analysis h' a"
proof -
  have b: "calculate_breakeven_analysis h a = calculate_breakeven_analysis h' a"
    using e by (rule breakeven_frame_cong)
  have l: "calculate_operating_leverage h a = calculate_operating_leverage h' a"
    using e by (rule leverage_frame_cong)
  show ?thesis
    by (simp only: get_cost_volume_profit_analysis_def b l e)
qed

section \<open>The store during a price simulation\<close>

text \<open>
  The simulation creates two frames, the copy and the frame of the new analyzer, and
  writes only into the copy: the store it leaves is the store it found, extended.
\<close>

lemma loc_assign_new:
  "loc_assign (h @ [t]) (length h) idx f =
     h @ [map (\<lambda>(i, r). if i \<in> set idx then f r else r) (enumerate 0 t)]"
  by (simp add: loc_assign_def)

lemma simulate_extends_store:
  "\<exists>new. snd (simulate_price_changes h a product_name new_price) = h @ new"
  by (simp add: simulate_price_changes_def Let_def alloc_def loc_assign_new
      FinancialAnalyzer_result split_def)

lemma frame_append: "df a < length h \<Longrightarrow> frame (h @ new) a = frame h a"
  by (simp add: frame_def nth_append)

section \<open>The combo analysis\<close>

lemma combo_fields:
  assumes "t \<noteq> []" and "frame h a = t"
    and "filter (\<lambda>r. name r \<in> set product_names) t = sel" and "sel \<noteq> []"
    and "dp = sum_list (map price sel) * (1 - discount_percent / 100)"
    and "m = (if dp > 0 then (dp - sum_list (map cost sel)) / dp * 100 else 0)"
  shows "map_of (calculate_combo_analysis h a product_names discount_percent)
           ''combo_margin_percent'' = Some (Num (Fin m))"
    and "map_of (calculate_combo_analysis h a product_names discount_percent) ''viability'' =
           Some (Str (if m > 15 then ''Viavel'' else if m > 5 then ''Revisar''
                      else ''Nao recomendado''))"
    and "map_of (calculate_combo_analysis h a product_names discount_percent) ''products'' =
           Some (StrList product_names)"
  using assms(1,4) unfolding assms(5,6)
  by (simp_all add: calculate_combo_analysis_def assms(2,3) Let_def)

lemma combo_head_tail:
  assumes "frame h a \<noteq> []"
    and "filter (\<lambda>r. name r \<in> set product_names) (frame h a) \<noteq> []"
  shows "calculate_combo_analysis h a product_names discount_percent =
           (''products'', StrList product_names) #
             tl (calculate_combo_analysis h a product_names discount_percent)"
  using assms by (simp add: calculate_combo_analysis_def Let_def)

lemma combo_tail_selection:
  assumes "frame h a \<noteq> []"
    and "filter (\<lambda>r. name r \<in> set product_names) (frame h a) \<noteq> []"
    and "filter (\<lambda>r. name r \<in> set product_names) (frame h a) =
         filter (\<lambda>r. name r \<in> set other_names) (frame h a)"
  shows "tl (calculate_combo_analysis h a product_names discount_percent) =
         tl (calculate_combo_analysis h a other_names discount_percent)"
  using assms(1,2) unfolding calculate_combo_analysis_def Let_def assms(3)[symmetric]
  by simp

lemma combo_error_iff:
  assumes "frame h a \<noteq> []"
  shows "calculate_combo_analysis h a product_names discount_percent =
           [(''error'', Str ''Nenhum produto encontrado'')] \<longleftrightarrow>
         filter (\<lambda>r. name r \<in> set product_names) (frame h a) = []"
  using assms by (simp add: calculate_combo_analysis_def Let_def)

lemma combo_no_error_key:
  assumes "frame h a \<noteq> []"
    and "filter (\<lambda>r. name r \<in> set product_names) (frame h a) \<noteq> []"
  shows "map_of (calculate_combo_analysis h a product_names discount_percent) ''error'' = None"
  using assms by (simp add: calculate_combo_analysis_def Let_def)

section \<open>Average ranks\<close>

lemma sum_positions: "2 * sum_list [g + 1 ..< g + k + 1] = k * (2 * g + k + 1)"
proof (induction k)
  case 0
  show ?case by simp
next
  case (Suc k)
  have "[g + 1 ..< g + Suc k + 1] = [g + 1 ..< g + k + 1] @ [g + k + 1]"
    by simp
  then have "2 * sum_list [g + 1 ..< g + Suc k + 1] =
             2 * sum_list [g + 1 ..< g + k + 1] + 2 * (g + k + 1)"
    by simp
  with Suc show ?case
    by (simp add: algebra_simps)
qed

lemma mean_position:
  assumes "0 < k"
  shows "real (sum_list [g + 1 ..< g + k + 1]) / real k = real g + (real k + 1) / 2"
proof -
  have "2 * real (sum_list [g + 1 ..< g + k + 1]) = real (2 * sum_list [g + 1 ..< g + k + 1])"
    by simp
  also have "\<dots> = real k * (2 * real g + real k + 1)"
    unfolding sum_positions by (simp add: algebra_simps)
  finally have "real (sum_list [g + 1 ..< g + k + 1]) = real k * (2 * real g + real k + 1) / 2"
    by simp
  then show ?thesis
    using assms by (simp add: field_simps)
qed

lemma rank_of_closed:
  assumes "v \<in> set vs" and "v \<noteq> NaN"
  shows "rank_of vs v =
           Fin (real (length (filter (\<lambda>w. fless v w) vs)) +
                (real (length (filter (\<lambda>w. w = v) vs)) + 1) / 2)"
proof -
  let ?g = "length (filter (\<lambda>w. fless v w) vs)"
  let ?k = "length (filter (\<lambda>w. w = v) vs)"
  have "filter (\<lambda>w. w = v) vs \<noteq> []"
    using assms(1) by (simp add: filter_empty_conv)
  then have "0 < ?k"
    by simp
  then have m: "real (sum_list [?g + 1 ..< ?g + ?k + 1]) / real ?k = real ?g + (real ?k + 1) / 2"
    by (rule mean_position)
  show ?thesis
    unfolding rank_of_def Let_def m using assms(2) by simp
qed

lemma analysis_ranks:
  assumes "frame h a \<noteq> []"
  shows "map contribution_rank (get_contribution_margin_analysis h a) =
           rank_descending (map contribution_margin_percent (frame h a))"
  using assms
  by (simp add: get_contribution_margin_analysis_def Let_def rank_descending_def zip_map2
      zip_same_conv_map comp_def row.defs analysis_row.defs)

section \<open>The example scenarios of the specification\<close>

text \<open>
  The model run on the examples the specification gives with their expected figures:
  total revenue 2550, total contribution 1790 and net profit 790 for the first; weighted
  margin 5, break-even at 80 units and a safety margin of 20 units, 20 percent, for the
  second; a combo margin of 50 percent, hence viable, for the third; and a break-even of
  0 units with a safety margin of 100 percent when there are no fixed costs.
\<close>

lemma scenario1_totals:
  "map_of (get_cost_volume_profit_analysis store1 (analyzer1 1000)) ''total_revenue'' =
     Some (Fin 2550)"
  "map_of (get_cost_volume_profit_analysis store1 (analyzer1 1000)) ''total_contribution'' =
     Some (Fin 1790)"
  "map_of (get_cost_volume_profit_analysis store1 (analyzer1 1000)) ''net_profit'' =
     Some (Fin 790)"
  by code_simp+

lemma scenario2_breakeven:
  "calculate_breakeven_analysis (snd (FinancialAnalyzer [] scenario2 400))
     (fst (FinancialAnalyzer [] scenario2 400)) =
   [(''breakeven_units'', Fin 80), (''breakeven_revenue'', Fin 800),
    (''safety_margin_units'', Fin 20), (''safety_margin_percent'', Fin 20),
    (''safety_margin_revenue'', Fin 200), (''weighted_avg_contribution_margin'', Fin 5),
    (''weighted_avg_price'', Fin 10)]"
  by code_simp

lemma scenario2_without_fixed_costs:
  "map_of (calculate_breakeven_analysis (snd (FinancialAnalyzer [] scenario2 0))
     (fst (FinancialAnalyzer [] scenario2 0))) ''breakeven_units'' = Some (Fin 0)"
  "map_of (calculate_breakeven_analysis (snd (FinancialAnalyzer [] scenario2 0))
     (fst (FinancialAnalyzer [] scenario2 0))) ''safety_margin_percent'' = Some (Fin 100)"
  by code_simp+

lemma scenario3_combo:
  "calculate_combo_analysis (snd (FinancialAnalyzer [] scenario3 0))
     (fst (FinancialAnalyzer [] scenario3 0)) [''Sanduiche'', ''Suco''] 0 =
   [(''products'', StrList [''Sanduiche'', ''Suco'']),
    (''original_price'', Num (Fin 20)), (''discounted_price'', Num (Fin 20)),
    (''total_cost'', Num (Fin 10)), (''combo_margin'', Num (Fin 10)),
    (''combo_margin_percent'', Num (Fin 50)),
    (''avg_individual_margin_percent'', Num (Fin 50)),
    (''margin_impact'', Num (Fin 0)), (''discount_applied'', Num (Fin 0)),
    (''viability'', Str ''Viavel'')]"
  by code_simp

lemma scenario1_mix:
  "map_of (analyze_product_mix_optimization store1 (analyzer1 1000)) ''low_margin_products'' =
     Some [[(''name'', Str ''Cappuccino''),
            (''contribution_margin_percent'', Num (Fin (200 / 3))),
            (''total_contribution'', Num (Fin 800))],
           [(''name'', Str ''Cafe Expresso''),
            (''contribution_margin_percent'', Num (Fin (220 / 3))),
            (''total_contribution'', Num (Fin 990))]]"
  by code_simp

section \<open>The claims\<close>

text \<open>
  C1 as stated fails where the total quantity is not positive: for a line of returned
  goods (price 2, cost 1, quantity -1) and fixed costs 10, the total contribution over
  the total quantity is 1, strictly positive, so the claim asks for a break-even of
  10 units; the code reports 0.
\<close>

theorem C1_negative_quantity_breakeven_zero:
  "sum_list (map total_contribution
       (frame (snd (FinancialAnalyzer [] returned_goods 10))
              (fst (FinancialAnalyzer [] returned_goods 10)))) /
     float_of_int64 (sum_list (map quantity
       (frame (snd (FinancialAnalyzer [] returned_goods 10))
              (fst (FinancialAnalyzer [] returned_goods 10))))) = 1 \<and>
   map_of (calculate_breakeven_analysis (snd (FinancialAnalyzer [] returned_goods 10))
       (fst (FinancialAnalyzer [] returned_goods 10))) ''breakeven_units'' = Some (Fin 0)"
  by (simp add: FinancialAnalyzer_def alloc_def frame_def calculate_metrics_def metrics_def
      returned_goods_def calculate_breakeven_analysis_def float_of_int64_def Let_def)

text \<open>
  C1, amended. For an analyzer over a non-empty product list,
  \<open>calculate_breakeven_analysis\<close> gives \<open>breakeven_units\<close> as the fixed costs divided by
  the weighted average contribution margin when that margin is strictly positive, and 0
  otherwise; \<open>breakeven_revenue\<close> is \<open>breakeven_units\<close> times the weighted average price.
  The weighted average contribution margin is the total contribution over the total
  quantity, and the weighted average price the total revenue over the total quantity,
  when the total quantity is strictly positive; both are 0 otherwise. The totals are
  taken over the products as supplied, the total quantity being the sum of the \<open>int64\<close>
  column.
\<close>

theorem C1_breakeven:
  assumes "FinancialAnalyzer h ps fc = (a, h')" and "ps \<noteq> []"
  shows "let tc = (\<Sum>p\<leftarrow>ps. (price p - cost p) * float_of_int64 (quantity p));
             tq = (\<Sum>p\<leftarrow>ps. quantity p);
             tr = (\<Sum>p\<leftarrow>ps. price p * float_of_int64 (quantity p));
             margin = (if 0 < sint tq then tc / float_of_int64 tq else 0);
             avg_price = (if 0 < sint tq then tr / float_of_int64 tq else 0);
             units = (if 0 < margin then fc / margin else 0)
         in map_of (calculate_breakeven_analysis h' a) ''breakeven_units'' = Some (Fin units) \<and>
            map_of (calculate_breakeven_analysis h' a) ''breakeven_revenue'' =
              Some (Fin (units * avg_price))"
proof -
  define tq where "tq = (\<Sum>p\<leftarrow>ps. quantity p)"
  define margin where "margin =
    (if 0 < sint tq
     then (\<Sum>p\<leftarrow>ps. (price p - cost p) * float_of_int64 (quantity p)) / float_of_int64 tq
     else 0)"
  define avg_price where "avg_price =
    (if 0 < sint tq then (\<Sum>p\<leftarrow>ps. price p * float_of_int64 (quantity p)) / float_of_int64 tq
     else 0)"
  define units where "units = (if 0 < margin then fc / margin else 0)"
  have f: "frame h' a = map metrics ps" and c: "fixed_costs a = fc"
    using assms(1) by (simp_all add: frame_new calculate_metrics_map)
  have t: "frame h' a \<noteq> []"
    using assms(2) by (simp add: f)
  have q: "tq = sum_list (map quantity (frame h' a))"
    unfolding tq_def f sum_quantity ..
  have m: "margin =
      (if 0 < sint tq
       then sum_list (map total_contribution (frame h' a)) / float_of_int64 tq else 0)"
    unfolding margin_def f sum_total_contribution ..
  have p: "avg_price =
      (if 0 < sint tq then sum_list (map total_revenue (frame h' a)) / float_of_int64 tq else 0)"
    unfolding avg_price_def f sum_total_revenue ..
  have u: "units = (if 0 < margin then fixed_costs a / margin else 0)"
    unfolding units_def c ..
  have "map_of (calculate_breakeven_analysis h' a) ''breakeven_units'' = Some (Fin units) \<and>
        map_of (calculate_breakeven_analysis h' a) ''breakeven_revenue'' =
          Some (Fin (units * avg_price))"
    using breakeven_fields [OF t q m p u] by (rule conjI)
  then show ?thesis
    unfolding Let_def units_def margin_def avg_price_def tq_def .
qed

theorem C1_breakeven_witness:
  "FinancialAnalyzer [] scenario1 1000 = (analyzer1 1000, store1) \<and> scenario1 \<noteq> [] \<and>
   map_of (calculate_breakeven_analysis store1 (analyzer1 1000)) ''breakeven_units'' =
     Some (Fin (50000 / 179)) \<and>
   map_of (calculate_breakeven_analysis store1 (analyzer1 1000)) ''breakeven_revenue'' =
     Some (Fin (255000 / 179)) \<and>
   FinancialAnalyzer [] returned_goods 10 =
     (\<lparr>products_data = returned_goods, fixed_costs = 10, df = 0\<rparr>,
      [calculate_metrics returned_goods]) \<and>
   returned_goods \<noteq> [] \<and>
   map_of (calculate_breakeven_analysis [calculate_metrics returned_goods]
      \<lparr>products_data = returned_goods, fixed_costs = 10, df = 0\<rparr>) ''breakeven_revenue'' =
     Some (Fin 0)"
proof -
  have i: "FinancialAnalyzer [] scenario1 1000 = (analyzer1 1000, store1)"
    by (rule analyzer1_constructed)
  have n: "scenario1 \<noteq> []"
    by (rule scenario1_nonempty)
  have j: "FinancialAnalyzer [] returned_goods 10 =
     (\<lparr>products_data = returned_goods, fixed_costs = 10, df = 0\<rparr>,
      [calculate_metrics returned_goods])"
    by (simp add: FinancialAnalyzer_def alloc_def)
  have r: "returned_goods \<noteq> []"
    by (simp add: returned_goods_def)
  have s: "map_of (calculate_breakeven_analysis store1 (analyzer1 1000)) ''breakeven_units'' =
       Some (Fin (50000 / 179)) \<and>
     map_of (calculate_breakeven_analysis store1 (analyzer1 1000)) ''breakeven_revenue'' =
       Some (Fin (255000 / 179))"
    using C1_breakeven [OF i n] by (simp add: scenario1_def float_of_int64_def Let_def)
  have g: "map_of (calculate_breakeven_analysis [calculate_metrics returned_goods]
      \<lparr>products_data = returned_goods, fixed_costs = 10, df = 0\<rparr>) ''breakeven_revenue'' =
     Some (Fin 0)"
    using C1_breakeven [OF j r] by (simp add: returned_goods_def float_of_int64_def Let_def)
  show ?thesis
    using i n j r s [THEN conjunct1] s [THEN conjunct2] g by (intro conjI)
qed

text \<open>
  C2. A product with price 0 should have the derived \<open>contribution_margin_percent\<close> 0
  whatever its cost. The guard of the source is \<open>fillna(0)\<close>, which catches the NaN of
  \<open>0 / 0\<close> only: for a product given away (price 0, cost 1) the percentage stored at
  construction is minus infinity.
\<close>

theorem C2_zero_price_percent_is_infinite:
  "map contribution_margin_percent
     (frame (snd (FinancialAnalyzer [] giveaway 0)) (fst (FinancialAnalyzer [] giveaway 0)))
   = [NInf]"
  by (simp add: FinancialAnalyzer_def alloc_def frame_def calculate_metrics_def metrics_def
      signed_inf_def giveaway_def)

text \<open>
  C3. For an analyzer over a non-empty product list, \<open>calculate_operating_leverage\<close>
  returns positive infinity if and only if the total contribution (the sum over the
  products of \<open>(price - cost) * quantity\<close>) equals the fixed costs; otherwise it returns
  the total contribution divided by the total contribution minus the fixed costs.
\<close>

theorem C3_operating_leverage:
  assumes "FinancialAnalyzer h ps fc = (a, h')" and "ps \<noteq> []"
  shows "let tc = (\<Sum>p\<leftarrow>ps. (price p - cost p) * float_of_int64 (quantity p))
         in (calculate_operating_leverage h' a = PInf \<longleftrightarrow> tc = fc) \<and>
            (tc \<noteq> fc \<longrightarrow> calculate_operating_leverage h' a = Fin (tc / (tc - fc)))"
proof -
  have f: "frame h' a = map metrics ps" and c: "fixed_costs a = fc"
    using assms(1) by (simp_all add: frame_new calculate_metrics_map)
  show ?thesis
    using assms(2)
    by (simp add: calculate_operating_leverage_def f c Let_def sum_total_contribution del: map_map)
qed

theorem C3_operating_leverage_witness:
  "FinancialAnalyzer [] scenario1 1790 = (analyzer1 1790, store1) \<and>
   FinancialAnalyzer [] scenario1 1000 = (analyzer1 1000, store1) \<and>
   scenario1 \<noteq> [] \<and>
   calculate_operating_leverage store1 (analyzer1 1790) = PInf \<and>
   calculate_operating_leverage store1 (analyzer1 1000) = Fin (179 / 79)"
proof -
  have i: "FinancialAnalyzer [] scenario1 1790 = (analyzer1 1790, store1)"
    and j: "FinancialAnalyzer [] scenario1 1000 = (analyzer1 1000, store1)"
    by (rule analyzer1_constructed)+
  have n: "scenario1 \<noteq> []"
    by (rule scenario1_nonempty)
  show ?thesis
    using i j n C3_operating_leverage [OF i n] C3_operating_leverage [OF j n]
    by (simp add: scenario1_def float_of_int64_def Let_def)
qed

text \<open>
  C4. \<open>simulate_price_changes\<close> leaves the analyzer as it was: for every analyzer whose
  frame is in the store, every product name and every new price, the store after the
  call is the store before it with new frames added, so the analyzer's own frame, and
  with it the result of \<open>get_cost_volume_profit_analysis\<close>, is the same before and
  after the call.
\<close>

theorem C4_simulation_keeps_analyzer:
  assumes "df a < length h"
  shows "take (length h) (snd (simulate_price_changes h a product_name new_price)) = h \<and>
         frame (snd (simulate_price_changes h a product_name new_price)) a = frame h a \<and>
         get_cost_volume_profit_analysis (snd (simulate_price_changes h a product_name new_price)) a =
           get_cost_volume_profit_analysis h a"
proof -
  obtain new where s: "snd (simulate_price_changes h a product_name new_price) = h @ new"
    using simulate_extends_store by blast
  have f: "frame (h @ new) a = frame h a"
    using assms by (rule frame_append)
  show ?thesis
    unfolding s using f cvp_frame_cong [OF f] by simp
qed

theorem C4_simulation_keeps_analyzer_witness:
  "df (analyzer1 1000) < length store1 \<and>
   map_of (fst (simulate_price_changes store1 (analyzer1 1000) ''Cappuccino'' 7)) ''new_profit'' =
     Some (Num (Fin 990)) \<and>
   length (snd (simulate_price_changes store1 (analyzer1 1000) ''Cappuccino'' 7)) = 3 \<and>
   get_cost_volume_profit_analysis
     (snd (simulate_price_changes store1 (analyzer1 1000) ''Cappuccino'' 7)) (analyzer1 1000) =
   get_cost_volume_profit_analysis store1 (analyzer1 1000)"
proof -
  have v: "df (analyzer1 1000) < length store1"
    by (simp add: analyzer1_def store1_def)
  have p: "map_of (fst (simulate_price_changes store1 (analyzer1 1000) ''Cappuccino'' 7))
             ''new_profit'' = Some (Num (Fin 990))"
    by code_simp
  have l: "length (snd (simulate_price_changes store1 (analyzer1 1000) ''Cappuccino'' 7)) = 3"
    by code_simp
  show ?thesis
    using v p l C4_simulation_keeps_analyzer [OF v, of "''Cappuccino''" 7] by simp
qed

text \<open>
  C5. For an analyzer over a non-empty product list, the sum of the column
  \<open>total_contribution\<close> equals the sum of \<open>total_revenue\<close> minus the sum of
  \<open>total_variable_cost\<close>, the columns being those derived at construction; the same
  holds between the three totals that \<open>get_cost_volume_profit_analysis\<close> reports.
  Arithmetic is exact here.
\<close>

theorem C5_contribution_identity:
  assumes "FinancialAnalyzer h ps fc = (a, h')" and "ps \<noteq> []"
  shows "sum_list (map total_contribution (frame h' a)) =
           sum_list (map total_revenue (frame h' a)) -
           sum_list (map total_variable_cost (frame h' a)) \<and>
         (\<exists>revenue variable_cost.
            map_of (get_cost_volume_profit_analysis h' a) ''total_revenue'' =
              Some (Fin revenue) \<and>
            map_of (get_cost_volume_profit_analysis h' a) ''total_variable_cost'' =
              Some (Fin variable_cost) \<and>
            map_of (get_cost_volume_profit_analysis h' a) ''total_contribution'' =
              Some (Fin (revenue - variable_cost)))"
proof -
  have f: "frame h' a = map metrics ps"
    using assms(1) by (simp add: frame_new calculate_metrics_map)
  have t: "frame h' a \<noteq> []"
    using assms(2) by (simp add: f)
  have e: "sum_list (map total_contribution (frame h' a)) =
           sum_list (map total_revenue (frame h' a)) -
           sum_list (map total_variable_cost (frame h' a))"
    unfolding f
    by (simp only: sum_total_contribution sum_total_revenue sum_total_variable_cost
        contribution_split)
  have c: "map_of (get_cost_volume_profit_analysis h' a) ''total_contribution'' =
           Some (Fin (sum_list (map total_revenue (frame h' a)) -
                      sum_list (map total_variable_cost (frame h' a))))"
    using cvp_totals(3) [OF t] e by simp
  show ?thesis
    using e cvp_totals(1) [OF t] cvp_totals(2) [OF t] c by blast
qed

theorem C5_contribution_identity_witness:
  "FinancialAnalyzer [] scenario1 1000 = (analyzer1 1000, store1) \<and> scenario1 \<noteq> [] \<and>
   sum_list (map total_revenue (frame store1 (analyzer1 1000))) = 2550 \<and>
   sum_list (map total_variable_cost (frame store1 (analyzer1 1000))) = 760 \<and>
   sum_list (map total_contribution (frame store1 (analyzer1 1000))) = 1790"
proof -
  have i: "FinancialAnalyzer [] scenario1 1000 = (analyzer1 1000, store1)"
    by (rule analyzer1_constructed)
  have n: "scenario1 \<noteq> []"
    by (rule scenario1_nonempty)
  have r: "sum_list (map total_revenue (frame store1 (analyzer1 1000))) = 2550"
    by (simp add: frame_store1 metrics_def scenario1_def float_of_int64_def)
  have v: "sum_list (map total_variable_cost (frame store1 (analyzer1 1000))) = 760"
    by (simp add: frame_store1 metrics_def scenario1_def float_of_int64_def)
  show ?thesis
    using i n r v C5_contribution_identity [OF i n] by simp
qed

text \<open>
  C6 as stated fails where the discounted price is negative: for a coupon (price -10,
  cost -5) at discount 0 the discounted price is -10 and the total cost -5, so the
  claim's formula gives 50 percent and a viable combo; the code reports 0 percent and
  does not recommend it.
\<close>

theorem C6_negative_price_margin_zero:
  "map_of (calculate_combo_analysis (snd (FinancialAnalyzer [] negative_price 0))
       (fst (FinancialAnalyzer [] negative_price 0)) [''Cupom''] 0) ''discounted_price'' =
     Some (Num (Fin (- 10))) \<and>
   map_of (calculate_combo_analysis (snd (FinancialAnalyzer [] negative_price 0))
       (fst (FinancialAnalyzer [] negative_price 0)) [''Cupom''] 0) ''total_cost'' =
     Some (Num (Fin (- 5))) \<and>
   map_of (calculate_combo_analysis (snd (FinancialAnalyzer [] negative_price 0))
       (fst (FinancialAnalyzer [] negative_price 0)) [''Cupom''] 0) ''combo_margin_percent'' =
     Some (Num (Fin 0)) \<and>
   map_of (calculate_combo_analysis (snd (FinancialAnalyzer [] negative_price 0))
       (fst (FinancialAnalyzer [] negative_price 0)) [''Cupom''] 0) ''viability'' =
     Some (Str ''Nao recomendado'')"
  by (simp add: FinancialAnalyzer_def alloc_def frame_def calculate_metrics_def metrics_def
      negative_price_def calculate_combo_analysis_def Let_def)

text \<open>
  C6, amended. For an analyzer over a non-empty product list and a selection of names
  matching at least one product, at every discount percentage (those in \<open>[0, 100]\<close>
  included), \<open>calculate_combo_analysis\<close> gives \<open>combo_margin_percent\<close> as
  \<open>(discounted price - total cost) / discounted price * 100\<close> when the discounted price
  is strictly positive and as 0 otherwise, and the viability label is \<open>Viavel\<close> above 15,
  \<open>Revisar\<close> above 5 and up to 15, \<open>Nao recomendado\<close> up to 5. The sums are taken over
  the matching products as supplied.
\<close>

theorem C6_combo_margin_and_viability:
  assumes "FinancialAnalyzer h ps fc = (a, h')" and "ps \<noteq> []"
    and "\<exists>p\<in>set ps. name p \<in> set product_names"
  shows "let selected = filter (\<lambda>p. name p \<in> set product_names) ps;
             discounted_price = (\<Sum>p\<leftarrow>selected. price p) * (1 - discount_percent / 100);
             total_cost = (\<Sum>p\<leftarrow>selected. cost p);
             result = map_of (calculate_combo_analysis h' a product_names discount_percent);
             margin_percent =
               (if 0 < discounted_price
                then (discounted_price - total_cost) / discounted_price * 100 else 0)
         in result ''combo_margin_percent'' = Some (Num (Fin margin_percent)) \<and>
            (15 < margin_percent \<longrightarrow> result ''viability'' = Some (Str ''Viavel'')) \<and>
            (5 < margin_percent \<and> margin_percent \<le> 15 \<longrightarrow>
               result ''viability'' = Some (Str ''Revisar'')) \<and>
            (margin_percent \<le> 5 \<longrightarrow> result ''viability'' = Some (Str ''Nao recomendado''))"
proof -
  define sel where "sel = filter (\<lambda>p. name p \<in> set product_names) ps"
  define dp where "dp = (\<Sum>p\<leftarrow>sel. price p) * (1 - discount_percent / 100)"
  define c where "c = (\<Sum>p\<leftarrow>sel. cost p)"
  define mc where "mc = (if 0 < dp then (dp - c) / dp * 100 else 0)"
  have f: "frame h' a = map metrics ps"
    using assms(1) by (simp add: frame_new calculate_metrics_map)
  have t: "map metrics ps \<noteq> []"
    using assms(2) by simp
  have fs: "filter (\<lambda>r. name r \<in> set product_names) (map metrics ps) = map metrics sel"
    unfolding sel_def by (rule filter_metrics)
  have s: "map metrics sel \<noteq> []"
    unfolding sel_def using assms(3) by (simp add: filter_empty_conv)
  have dp': "dp = sum_list (map price (map metrics sel)) * (1 - discount_percent / 100)"
    unfolding dp_def sum_price_metrics ..
  have mc': "mc = (if dp > 0 then (dp - sum_list (map cost (map metrics sel))) / dp * 100 else 0)"
    unfolding mc_def c_def sum_cost_metrics ..
  note r = combo_fields [OF t f fs s dp' mc']
  have "map_of (calculate_combo_analysis h' a product_names discount_percent)
              ''combo_margin_percent'' = Some (Num (Fin mc)) \<and>
            (15 < mc \<longrightarrow> map_of (calculate_combo_analysis h' a product_names discount_percent)
               ''viability'' = Some (Str ''Viavel'')) \<and>
            (5 < mc \<and> mc \<le> 15 \<longrightarrow> map_of (calculate_combo_analysis h' a product_names discount_percent)
               ''viability'' = Some (Str ''Revisar'')) \<and>
            (mc \<le> 5 \<longrightarrow> map_of (calculate_combo_analysis h' a product_names discount_percent)
               ''viability'' = Some (Str ''Nao recomendado''))"
    by (simp add: r(1) r(2))
  then show ?thesis
    unfolding Let_def mc_def dp_def c_def sel_def .
qed

theorem C6_combo_margin_and_viability_witness:
  "FinancialAnalyzer [] scenario1 1000 = (analyzer1 1000, store1) \<and> scenario1 \<noteq> [] \<and>
   (\<exists>p\<in>set scenario1. name p \<in> set [''Cafe Expresso'', ''Cappuccino'']) \<and>
   map_of (calculate_combo_analysis store1 (analyzer1 1000) [''Cafe Expresso'', ''Cappuccino''] 10)
     ''combo_margin_percent'' = Some (Num (Fin (12500 / 189))) \<and>
   map_of (calculate_combo_analysis store1 (analyzer1 1000) [''Cafe Expresso'', ''Cappuccino''] 10)
     ''viability'' = Some (Str ''Viavel'') \<and>
   map_of (calculate_combo_analysis store1 (analyzer1 1000) [''Cafe Expresso'', ''Cappuccino''] 100)
     ''combo_margin_percent'' = Some (Num (Fin 0)) \<and>
   map_of (calculate_combo_analysis store1 (analyzer1 1000) [''Cafe Expresso'', ''Cappuccino''] 100)
     ''viability'' = Some (Str ''Nao recomendado'')"
proof -
  have i: "FinancialAnalyzer [] scenario1 1000 = (analyzer1 1000, store1)"
    by (rule analyzer1_constructed)
  have n: "scenario1 \<noteq> []"
    by (rule scenario1_nonempty)
  have m: "\<exists>p\<in>set scenario1. name p \<in> set [''Cafe Expresso'', ''Cappuccino'']"
    by (simp add: scenario1_def)
  have d10: "map_of (calculate_combo_analysis store1 (analyzer1 1000)
        [''Cafe Expresso'', ''Cappuccino''] 10) ''combo_margin_percent'' =
       Some (Num (Fin (12500 / 189))) \<and>
     map_of (calculate_combo_analysis store1 (analyzer1 1000)
        [''Cafe Expresso'', ''Cappuccino''] 10) ''viability'' = Some (Str ''Viavel'')"
    using C6_combo_margin_and_viability [OF i n m, of 10]
    by (simp add: scenario1_def Let_def)
  have d100: "map_of (calculate_combo_analysis store1 (analyzer1 1000)
        [''Cafe Expresso'', ''Cappuccino''] 100) ''combo_margin_percent'' = Some (Num (Fin 0)) \<and>
     map_of (calculate_combo_analysis store1 (analyzer1 1000)
        [''Cafe Expresso'', ''Cappuccino''] 100) ''viability'' = Some (Str ''Nao recomendado'')"
    using C6_combo_margin_and_viability [OF i n m, of 100]
    by (simp add: scenario1_def Let_def)
  show ?thesis
    using i n m d10 [THEN conjunct1] d10 [THEN conjunct2]
      d100 [THEN conjunct1] d100 [THEN conjunct2]
    by (intro conjI)
qed

text \<open>
  C7 as stated fails: two products with the same margin percentage (50) do not receive
  distinct integer ranks, each has the rank 1.5.
\<close>

theorem C7_tied_products_share_fractional_rank:
  "map contribution_rank
     (get_contribution_margin_analysis
        (snd (FinancialAnalyzer [] tied_products 0)) (fst (FinancialAnalyzer [] tied_products 0)))
   = [Fin (3 / 2), Fin (3 / 2)]"
  by code_simp

text \<open>
  C7, amended. For an analyzer over a non-empty product list, the rows of
  \<open>get_contribution_margin_analysis\<close> carry, in the order of the products, the average
  rank of their \<open>contribution_margin_percent\<close> in descending order: a row with \<open>g\<close> rows
  of strictly greater percentage and \<open>k\<close> rows of equal percentage (itself included)
  has the rank \<open>g + (k + 1) / 2\<close>. Rows with equal percentages share one rank, which is
  fractional when \<open>k\<close> is even; a row whose percentage is unique has the integer rank
  \<open>g + 1\<close>.
\<close>

theorem C7_average_rank:
  assumes "FinancialAnalyzer h ps fc = (a, h')" and "ps \<noteq> []"
  shows "map contribution_rank (get_contribution_margin_analysis h' a) =
           map (\<lambda>p. Fin (real (length (filter
                            (\<lambda>q. fless (contribution_margin_percent (metrics p))
                                        (contribution_margin_percent (metrics q))) ps)) +
                     (real (length (filter
                            (\<lambda>q. contribution_margin_percent (metrics q) =
                                 contribution_margin_percent (metrics p)) ps)) + 1) / 2)) ps"
proof -
  let ?pct = "\<lambda>p. contribution_margin_percent (metrics p)"
  let ?vs = "map ?pct ps"
  have f: "frame h' a = map metrics ps"
    using assms(1) by (simp add: frame_new calculate_metrics_map)
  have t: "frame h' a \<noteq> []"
    using assms(2) by (simp add: f)
  have v: "map contribution_margin_percent (frame h' a) = ?vs"
    by (simp add: f)
  have r: "rank_of ?vs (?pct p) =
             Fin (real (length (filter (\<lambda>q. fless (?pct p) (?pct q)) ps)) +
                  (real (length (filter (\<lambda>q. ?pct q = ?pct p) ps)) + 1) / 2)"
    if "p \<in> set ps" for p
  proof -
    have "?pct p \<in> set ?vs"
      using that by simp
    then have "rank_of ?vs (?pct p) =
           Fin (real (length (filter (\<lambda>w. fless (?pct p) w) ?vs)) +
                (real (length (filter (\<lambda>w. w = ?pct p) ?vs)) + 1) / 2)"
      using percent_not_nan by (rule rank_of_closed)
    then show ?thesis
      by (simp add: filter_map comp_def)
  qed
  have "map contribution_rank (get_contribution_margin_analysis h' a) = rank_descending ?vs"
    using analysis_ranks [OF t] v by simp
  also have "\<dots> = map (\<lambda>p. rank_of ?vs (?pct p)) ps"
    by (simp add: rank_descending_def comp_def)
  also have "\<dots> = map (\<lambda>p. Fin (real (length (filter (\<lambda>q. fless (?pct p) (?pct q)) ps)) +
                  (real (length (filter (\<lambda>q. ?pct q = ?pct p) ps)) + 1) / 2)) ps"
    using r by (simp cong: map_cong)
  finally show ?thesis .
qed

theorem C7_average_rank_witness:
  "FinancialAnalyzer [] scenario1 1000 = (analyzer1 1000, store1) \<and> scenario1 \<noteq> [] \<and>
   map contribution_rank (get_contribution_margin_analysis store1 (analyzer1 1000)) =
     [Fin 1, Fin 2]"
proof -
  have i: "FinancialAnalyzer [] scenario1 1000 = (analyzer1 1000, store1)"
    by (rule analyzer1_constructed)
  have n: "scenario1 \<noteq> []"
    by (rule scenario1_nonempty)
  show ?thesis
    using i n C7_average_rank [OF i n] by (simp add: scenario1_def metrics_def)
qed

text \<open>
  C8 as stated fails: construction with negative fixed costs over a product with
  negative price, cost and quantity does not fail. It returns an analyzer, with the
  metrics derived from the negative figures.
\<close>

theorem C8_negative_input_accepted:
  "FinancialAnalyzer [] negative_product (- 5) =
     (\<lparr>products_data = negative_product, fixed_costs = - 5, df = 0\<rparr>,
      [[\<lparr>name = ''X'', price = - 1, cost = - 2, quantity = - 3, contribution_margin = 1,
         contribution_margin_percent = Fin (- 100), total_revenue = 3,
         total_variable_cost = 6, total_contribution = - 3\<rparr>]])"
  by (simp add: FinancialAnalyzer_def alloc_def calculate_metrics_def metrics_def
      negative_product_def float_of_int64_def)

text \<open>
  C8, amended. Construction validates nothing and never fails: for every product list and
  every fixed costs, negative figures included, it returns an analyzer that keeps the
  fixed costs and the products as supplied, and whose new frame has one row per product
  with the product's name, price, cost and quantity unchanged and the five metrics
  derived from them: the margin \<open>price - cost\<close>; its percentage of the price (for a price
  of 0: 0 when the cost is 0 too, otherwise an infinity of the sign of the margin); and
  revenue, variable cost and contribution as price, cost and margin times the quantity.
\<close>

theorem C8_construction_never_rejects:
  assumes "FinancialAnalyzer h ps fc = (a, h')"
  shows "fixed_costs a = fc \<and> products_data a = ps \<and> df a = length h \<and> h' = h @ [frame h' a] \<and>
         map name (frame h' a) = map name ps \<and> map price (frame h' a) = map price ps \<and>
         map cost (frame h' a) = map cost ps \<and> map quantity (frame h' a) = map quantity ps \<and>
         map contribution_margin (frame h' a) = map (\<lambda>p. price p - cost p) ps \<and>
         map contribution_margin_percent (frame h' a) =
           map (\<lambda>p. if price p = 0
                    then (if cost p = 0 then Fin 0 else if cost p < 0 then PInf else NInf)
                    else Fin ((price p - cost p) / price p * 100)) ps \<and>
         map total_revenue (frame h' a) = map (\<lambda>p. price p * float_of_int64 (quantity p)) ps \<and>
         map total_variable_cost (frame h' a) =
           map (\<lambda>p. cost p * float_of_int64 (quantity p)) ps \<and>
         map total_contribution (frame h' a) =
           map (\<lambda>p. (price p - cost p) * float_of_int64 (quantity p)) ps"
proof -
  have f: "frame h' a = map metrics ps"
    using assms by (simp add: frame_new calculate_metrics_map)
  have pct: "contribution_margin_percent (metrics p) =
      (if price p = 0
       then (if cost p = 0 then Fin 0 else if cost p < 0 then PInf else NInf)
       else Fin ((price p - cost p) / price p * 100))" for p :: "'a product_scheme"
    by (simp add: metrics_def signed_inf_def)
  have inputs: "map name (frame h' a) = map name ps \<and> map price (frame h' a) = map price ps \<and>
         map cost (frame h' a) = map cost ps \<and> map quantity (frame h' a) = map quantity ps"
    by (simp add: f metrics_def)
  have derived: "map contribution_margin (frame h' a) = map (\<lambda>p. price p - cost p) ps \<and>
         map total_revenue (frame h' a) = map (\<lambda>p. price p * float_of_int64 (quantity p)) ps \<and>
         map total_variable_cost (frame h' a) =
           map (\<lambda>p. cost p * float_of_int64 (quantity p)) ps \<and>
         map total_contribution (frame h' a) =
           map (\<lambda>p. (price p - cost p) * float_of_int64 (quantity p)) ps"
    by (simp add: f metrics_def)
  have percent: "map contribution_margin_percent (frame h' a) =
           map (\<lambda>p. if price p = 0
                    then (if cost p = 0 then Fin 0 else if cost p < 0 then PInf else NInf)
                    else Fin ((price p - cost p) / price p * 100)) ps"
    by (simp add: f pct)
  have basics: "fixed_costs a = fc \<and> products_data a = ps \<and> df a = length h \<and>
      h' = h @ [frame h' a]"
    using assms by (auto simp: FinancialAnalyzer_result frame_def)
  show ?thesis
    using basics inputs derived percent by simp
qed

theorem C8_construction_never_rejects_witness:
  "FinancialAnalyzer [] negative_product (- 5) =
     (\<lparr>products_data = negative_product, fixed_costs = - 5, df = 0\<rparr>,
      [calculate_metrics negative_product]) \<and>
   fixed_costs \<lparr>products_data = negative_product, fixed_costs = - 5, df = 0\<rparr> = - 5 \<and>
   map price (frame [calculate_metrics negative_product]
     \<lparr>products_data = negative_product, fixed_costs = - 5, df = 0\<rparr>) = [- 1] \<and>
   map quantity (frame [calculate_metrics negative_product]
     \<lparr>products_data = negative_product, fixed_costs = - 5, df = 0\<rparr>) = [- 3] \<and>
   map contribution_margin_percent (frame [calculate_metrics negative_product]
     \<lparr>products_data = negative_product, fixed_costs = - 5, df = 0\<rparr>) = [Fin (- 100)] \<and>
   map total_revenue (frame [calculate_metrics negative_product]
     \<lparr>products_data = negative_product, fixed_costs = - 5, df = 0\<rparr>) = [3] \<and>
   map total_contribution (frame [calculate_metrics negative_product]
     \<lparr>products_data = negative_product, fixed_costs = - 5, df = 0\<rparr>) = [- 3]"
proof -
  have i: "FinancialAnalyzer [] negative_product (- 5) =
     (\<lparr>products_data = negative_product, fixed_costs = - 5, df = 0\<rparr>,
      [calculate_metrics negative_product])"
    by (simp add: FinancialAnalyzer_def alloc_def)
  note c = C8_construction_never_rejects [OF i]
  note inputs = c [THEN conjunct2, THEN conjunct2, THEN conjunct2, THEN conjunct2]
  note derived = inputs [THEN conjunct2, THEN conjunct2, THEN conjunct2, THEN conjunct2]
  have p: "map price (frame [calculate_metrics negative_product]
     \<lparr>products_data = negative_product, fixed_costs = - 5, df = 0\<rparr>) = [- 1]"
    using inputs [THEN conjunct2, THEN conjunct1] by (simp add: negative_product_def)
  have q: "map quantity (frame [calculate_metrics negative_product]
     \<lparr>products_data = negative_product, fixed_costs = - 5, df = 0\<rparr>) = [- 3]"
    using inputs [THEN conjunct2, THEN conjunct2, THEN conjunct2, THEN conjunct1]
    by (simp add: negative_product_def)
  have m: "map contribution_margin_percent (frame [calculate_metrics negative_product]
     \<lparr>products_data = negative_product, fixed_costs = - 5, df = 0\<rparr>) = [Fin (- 100)]"
    using derived [THEN conjunct2, THEN conjunct1] by (simp add: negative_product_def)
  have r: "map total_revenue (frame [calculate_metrics negative_product]
     \<lparr>products_data = negative_product, fixed_costs = - 5, df = 0\<rparr>) = [3]"
    using derived [THEN conjunct2, THEN conjunct2, THEN conjunct1]
    by (simp add: negative_product_def float_of_int64_def)
  have t: "map total_contribution (frame [calculate_metrics negative_product]
     \<lparr>products_data = negative_product, fixed_costs = - 5, df = 0\<rparr>) = [- 3]"
    using derived [THEN conjunct2, THEN conjunct2, THEN conjunct2, THEN conjunct2]
    by (simp add: negative_product_def float_of_int64_def)
  have fc: "fixed_costs \<lparr>products_data = negative_product, fixed_costs = - 5, df = 0\<rparr> = - 5"
    by simp
  show ?thesis
    using i fc p q m r t by (intro conjI)
qed

text \<open>
  C9 as stated fails: on an analyzer over no product the operating leverage is the
  number 0, which is neither an empty table nor an empty mapping.
\<close>

theorem C9_empty_leverage_is_zero:
  "calculate_operating_leverage (snd (FinancialAnalyzer [] ([] :: product list) 8000))
     (fst (FinancialAnalyzer [] ([] :: product list) 8000)) = Fin 0"
  by (simp add: FinancialAnalyzer_def alloc_def calculate_operating_leverage_def frame_def
      calculate_metrics_def)

text \<open>
  C9, amended. Construction over an empty product sequence succeeds, and no query on the
  analyzer fails: the contribution analysis returns the empty table; the break-even
  analysis, the CVP analysis, the mix optimization, the combo analysis and the price
  simulation return the empty mapping (the simulation leaving the store as it is); the
  operating leverage returns the number 0.
\<close>

theorem C9_empty_analyzer:
  assumes "FinancialAnalyzer h [] fc = (a, h')"
  shows "get_contribution_margin_analysis h' a = [] \<and>
         calculate_breakeven_analysis h' a = [] \<and>
         calculate_operating_leverage h' a = Fin 0 \<and>
         get_cost_volume_profit_analysis h' a = [] \<and>
         analyze_product_mix_optimization h' a = [] \<and>
         calculate_combo_analysis h' a product_names discount_percent = [] \<and>
         simulate_price_changes h' a product_name new_price = ([], h')"
proof -
  have f: "frame h' a = []"
    using assms by (simp add: frame_new calculate_metrics_def)
  show ?thesis
    by (simp add: f get_contribution_margin_analysis_def calculate_breakeven_analysis_def
        calculate_operating_leverage_def get_cost_volume_profit_analysis_def
        analyze_product_mix_optimization_def calculate_combo_analysis_def
        simulate_price_changes_def)
qed

theorem C9_empty_analyzer_witness:
  "FinancialAnalyzer [] ([] :: product list) 8000 =
     (\<lparr>products_data = [], fixed_costs = 8000, df = 0\<rparr>, [[]]) \<and>
   get_cost_volume_profit_analysis [[]]
     \<lparr>products_data = ([] :: product list), fixed_costs = 8000, df = 0\<rparr> = [] \<and>
   calculate_combo_analysis [[]]
     \<lparr>products_data = ([] :: product list), fixed_costs = 8000, df = 0\<rparr> [''Cappuccino''] 10 = [] \<and>
   simulate_price_changes [[]]
     \<lparr>products_data = ([] :: product list), fixed_costs = 8000, df = 0\<rparr> ''Cappuccino'' 7 =
     ([], [[]])"
proof -
  have i: "FinancialAnalyzer [] ([] :: product list) 8000 =
     (\<lparr>products_data = [], fixed_costs = 8000, df = 0\<rparr>, [[]])"
    by (simp add: FinancialAnalyzer_def alloc_def calculate_metrics_def)
  show ?thesis
    using i C9_empty_analyzer [OF i, of "[''Cappuccino'']" 10 "''Cappuccino''" 7] by simp
qed

text \<open>
  C10. For an analyzer over a non-empty product list, \<open>calculate_combo_analysis\<close> returns
  its error dictionary exactly when no requested name is the name of a product. When
  at least one name matches, the result has no \<open>error\<close> key, its \<open>products\<close> entry is the
  requested list as given, unmatched names included, and every other entry is the one
  obtained when only the matching names are requested: the unmatched names have no effect
  on the figures.
\<close>

theorem C10_combo_unmatched_names:
  assumes "FinancialAnalyzer h ps fc = (a, h')" and "ps \<noteq> []"
  shows "(calculate_combo_analysis h' a product_names discount_percent =
            [(''error'', Str ''Nenhum produto encontrado'')] \<longleftrightarrow>
          \<not> (\<exists>p\<in>set ps. name p \<in> set product_names)) \<and>
         ((\<exists>p\<in>set ps. name p \<in> set product_names) \<longrightarrow>
            map_of (calculate_combo_analysis h' a product_names discount_percent) ''error'' = None \<and>
            map_of (calculate_combo_analysis h' a product_names discount_percent) ''products'' =
              Some (StrList product_names) \<and>
            (\<forall>key. key \<noteq> ''products'' \<longrightarrow>
               map_of (calculate_combo_analysis h' a product_names discount_percent) key =
               map_of (calculate_combo_analysis h' a
                         (filter (\<lambda>n. n \<in> name ` set ps) product_names) discount_percent) key))"
proof -
  let ?matched = "filter (\<lambda>n. n \<in> name ` set ps) product_names"
  have f: "frame h' a = map metrics ps"
    using assms(1) by (simp add: frame_new calculate_metrics_map)
  have t: "frame h' a \<noteq> []"
    using assms(2) by (simp add: f)
  have e: "filter (\<lambda>r. name r \<in> set product_names) (frame h' a) = [] \<longleftrightarrow>
           \<not> (\<exists>p\<in>set ps. name p \<in> set product_names)"
    by (auto simp: f filter_empty_conv name_metrics)
  have m: "filter (\<lambda>r. name r \<in> set product_names) (frame h' a) =
           filter (\<lambda>r. name r \<in> set ?matched) (frame h' a)"
    unfolding f by (rule filter_cong) (auto simp: name_metrics)
  have first: "calculate_combo_analysis h' a product_names discount_percent =
            [(''error'', Str ''Nenhum produto encontrado'')] \<longleftrightarrow>
          \<not> (\<exists>p\<in>set ps. name p \<in> set product_names)"
    using combo_error_iff [OF t] e by simp
  have second: "map_of (calculate_combo_analysis h' a product_names discount_percent) ''error'' = None \<and>
            map_of (calculate_combo_analysis h' a product_names discount_percent) ''products'' =
              Some (StrList product_names) \<and>
            (\<forall>key. key \<noteq> ''products'' \<longrightarrow>
               map_of (calculate_combo_analysis h' a product_names discount_percent) key =
               map_of (calculate_combo_analysis h' a ?matched discount_percent) key)"
    if hit: "\<exists>p\<in>set ps. name p \<in> set product_names"
  proof -
    have s: "filter (\<lambda>r. name r \<in> set product_names) (frame h' a) \<noteq> []"
      using hit e by simp
    have s': "filter (\<lambda>r. name r \<in> set ?matched) (frame h' a) \<noteq> []"
      using s m by simp
    have c1: "calculate_combo_analysis h' a product_names discount_percent =
           (''products'', StrList product_names) #
             tl (calculate_combo_analysis h' a product_names discount_percent)"
      using t s by (rule combo_head_tail)
    have c2: "calculate_combo_analysis h' a ?matched discount_percent =
           (''products'', StrList ?matched) #
             tl (calculate_combo_analysis h' a product_names discount_percent)"
      using combo_head_tail [OF t s'] combo_tail_selection [OF t s m] by simp
    have k: "map_of (calculate_combo_analysis h' a product_names discount_percent) key =
               map_of (calculate_combo_analysis h' a ?matched discount_percent) key"
      if "key \<noteq> ''products''" for key
    proof -
      have "map_of (calculate_combo_analysis h' a product_names discount_percent) key =
            map_of (tl (calculate_combo_analysis h' a product_names discount_percent)) key"
        using that by (subst c1) simp
      also have "\<dots> = map_of (calculate_combo_analysis h' a ?matched discount_percent) key"
        using that by (subst c2) simp
      finally show ?thesis .
    qed
    have p: "map_of (calculate_combo_analysis h' a product_names discount_percent) ''products'' =
              Some (StrList product_names)"
      by (subst c1) simp
    show ?thesis
      using combo_no_error_key [OF t s] p k by blast
  qed
  show ?thesis
    using first second by blast
qed

theorem C10_combo_unmatched_names_witness:
  "FinancialAnalyzer [] scenario1 1000 = (analyzer1 1000, store1) \<and> scenario1 \<noteq> [] \<and>
   (\<exists>p\<in>set scenario1. name p \<in> set [''Cappuccino'', ''Cha'']) \<and>
   map_of (calculate_combo_analysis store1 (analyzer1 1000) [''Cappuccino'', ''Cha''] 10)
     ''products'' = Some (StrList [''Cappuccino'', ''Cha'']) \<and>
   map_of (calculate_combo_analysis store1 (analyzer1 1000) [''Cappuccino'', ''Cha''] 10)
     ''original_price'' =
   map_of (calculate_combo_analysis store1 (analyzer1 1000) [''Cappuccino''] 10)
     ''original_price'' \<and>
   calculate_combo_analysis store1 (analyzer1 1000) [''Cha''] 10 =
     [(''error'', Str ''Nenhum produto encontrado'')]"
proof -
  have i: "FinancialAnalyzer [] scenario1 1000 = (analyzer1 1000, store1)"
    by (rule analyzer1_constructed)
  have n: "scenario1 \<noteq> []"
    by (rule scenario1_nonempty)
  have m: "\<exists>p\<in>set scenario1. name p \<in> set [''Cappuccino'', ''Cha'']"
    by (simp add: scenario1_def)
  have u: "\<not> (\<exists>p\<in>set scenario1. name p \<in> set [''Cha''])"
    by (simp add: scenario1_def)
  have k: "filter (\<lambda>n. n \<in> name ` set scenario1) [''Cappuccino'', ''Cha''] = [''Cappuccino'']"
    by (simp add: scenario1_def)
  have o: "''original_price'' \<noteq> ''products''"
    by simp
  note both = C10_combo_unmatched_names [OF i n, of "[''Cappuccino'', ''Cha'']" 10]
  note none = C10_combo_unmatched_names [OF i n, of "[''Cha'']" 10]
  note hit = both [THEN conjunct2, THEN mp, OF m]
  have p: "map_of (calculate_combo_analysis store1 (analyzer1 1000) [''Cappuccino'', ''Cha''] 10)
     ''products'' = Some (StrList [''Cappuccino'', ''Cha''])"
    by (rule hit [THEN conjunct2, THEN conjunct1])
  have "map_of (calculate_combo_analysis store1 (analyzer1 1000) [''Cappuccino'', ''Cha''] 10)
          ''original_price'' =
        map_of (calculate_combo_analysis store1 (analyzer1 1000)
          (filter (\<lambda>n. n \<in> name ` set scenario1) [''Cappuccino'', ''Cha'']) 10) ''original_price''"
    by (rule hit [THEN conjunct2, THEN conjunct2, rule_format, OF o])
  then have q: "map_of (calculate_combo_analysis store1 (analyzer1 1000) [''Cappuccino'', ''Cha''] 10)
          ''original_price'' =
        map_of (calculate_combo_analysis store1 (analyzer1 1000) [''Cappuccino''] 10)
          ''original_price''"
    unfolding k .
  have e: "calculate_combo_analysis store1 (analyzer1 1000) [''Cha''] 10 =
     [(''error'', Str ''Nenhum produto encontrado'')]"
    by (rule none [THEN conjunct1, THEN iffD2, OF u])
  show ?thesis
    using i n m p q e by (intro conjI)
qed

end
